theory Spec2Isabelle
  imports Main
begin

section \<open>Data model\<close>

text \<open>
  The module \<^verbatim>\<open>litestar_browser_reload/__init__.py\<close> holds one module global
  (\<^verbatim>\<open>version_id\<close>), the factory \<^verbatim>\<open>reload_endpoint\<close> whose closure carries the watch
  configuration into the coroutine \<^verbatim>\<open>watch_reload\<close> and the class
  \<^verbatim>\<open>BrowserReloadHandler\<close>, and the plugin class \<^verbatim>\<open>BrowserReloadPlugin\<close>.

  JSON payloads are the dict literals of the source, kept as association lists.
  Exceptions are values. \<^verbatim>\<open>WatchError\<close> stands for whatever the watcher raises while
  it runs, \<^verbatim>\<open>ReError\<close> for \<^verbatim>\<open>re.error\<close>.
\<close>

type_synonym json = "(string \<times> string) list"

type_synonym batch = "string list"

datatype exn = AttributeError | WebSocketDisconnect | CancelledError | WatchError | ReError

text \<open>
  A filter object. An instance of the watch library's \<^verbatim>\<open>DefaultFilter\<close> is kept as the two
  arguments \<^verbatim>\<open>ignore_dirs\<close> and \<^verbatim>\<open>ignore_entity_patterns\<close> it was built from (\<^verbatim>\<open>None\<close>
  included). Any other object a caller passes as \<^verbatim>\<open>watch_filter\<close> is opaque, and carries
  what \<^verbatim>\<open>bool(obj)\<close> gives for it: \<^verbatim>\<open>DefaultFilter\<close> defines neither \<^verbatim>\<open>__bool__\<close> nor
  \<^verbatim>\<open>__len__\<close>, so its instances are truthy, but a subclass or another callable may be
  falsy.
\<close>

datatype wfilter =
    DefaultFilter "string list option" "string list option"
  | CustomFilter nat bool

text \<open>The closure variables of \<^verbatim>\<open>reload_endpoint\<close> and the class attribute \<^verbatim>\<open>path\<close>.\<close>

record handler_class =
  route_path :: string
  watch_paths :: "string list"
  ignore_dirs :: "string list option"
  ignore_entity_patterns :: "string list option"
  watch_filter :: "wfilter option"

text \<open>The attributes of a \<^verbatim>\<open>BrowserReloadPlugin\<close> instance.\<close>

record plugin =
  p_watch_paths :: "string list"
  p_ignore_dirs :: "string list option"
  p_ignore_entity_patterns :: "string list option"
  p_watch_filter :: "wfilter option"

text \<open>The router returned by \<^verbatim>\<open>create_static_files_router\<close>, as the arguments it was given.\<close>

record static_router =
  directories :: "string list"
  sr_path :: string
  sr_name :: string
  sr_opt :: "(string \<times> bool) list"
  include_in_schema :: bool

datatype route =
    Listener handler_class
  | StaticFiles static_router
  | HostRoute nat

record app_config =
  debug :: bool
  route_handlers :: "route list"

text \<open>
  The connection object of the host framework: whether the peer is still there, and the
  JSON messages handed to it so far, in the order of the \<^verbatim>\<open>send_json\<close> calls.
\<close>

record socket =
  connected :: bool
  sent :: "json list"

text \<open>A value bound to \<^verbatim>\<open>self.ws\<close>: \<^verbatim>\<open>None\<close> (falsy) or a reference to a connection.\<close>

datatype pyref = PyNone | SockRef nat

text \<open>
  An \<^verbatim>\<open>asyncio\<close> task running \<^verbatim>\<open>watch_reload\<close>: created and not yet run; suspended in the
  \<^verbatim>\<open>async for\<close> over \<^verbatim>\<open>awatch(*paths, watch_filter=f)\<close> with the batches the watcher has
  ready; or finished.
\<close>

datatype outcome = Completed | Cancelled | Failed exn

datatype tstate =
    Scheduled
  | Watching "string list" wfilter "batch list"
  | Done outcome

record task =
  st :: tstate
  cancel_requested :: bool

text \<open>
  The process: the module global, the log of \<^verbatim>\<open>logger.debug\<close>, the two attributes of the
  handler instance (\<open>None\<close> when the attribute was never assigned), the tasks of the event
  loop, the connections, the tasks that a suspended \<^verbatim>\<open>on_disconnect\<close> is awaiting, and
  the exceptions that left a handler method towards the host framework. The host
  framework makes one instance of the listener class when the route is registered and
  serves every connection with it, so \<^verbatim>\<open>self.ws\<close> and \<^verbatim>\<open>self._watch_task\<close> are one pair of
  attributes for all sessions.
\<close>

record world =
  version_id :: string
  logs :: "string list"
  ws :: "pyref option"
  watch_task :: "nat option"
  tasks :: "task list"
  socks :: "nat \<Rightarrow> socket"
  awaiting :: "nat list"
  escaped :: "exn list"

section \<open>Module load\<close>

text \<open>
  \<^verbatim>\<open>version_id = str(uuid.uuid4())\<close> runs once, when the module is imported; the random
  string is the parameter. No handler attribute is assigned and no task exists yet.
\<close>

definition module_load :: "string \<Rightarrow> world" where
  "module_load uuid4 =
     \<lparr>version_id = uuid4, logs = [], ws = None, watch_task = None, tasks = [],
      socks = (\<lambda>_. \<lparr>connected = True, sent = []\<rparr>), awaiting = [], escaped = []\<rparr>"

section \<open>Messages and the connection\<close>

definition reload_msg :: json where
  "reload_msg = [(''type'', ''reload'')]"

definition ping_msg :: "string \<Rightarrow> json" where
  "ping_msg v = [(''type'', ''ping''), (''versionId'', v)]"

text \<open>
  \<^verbatim>\<open>socket.send_json(m)\<close> of the host framework (not part of this module): the message
  is handed to the connection when the call is made, so messages leave in the order of
  the calls, and the call raises when the peer is gone. A peer that is gone stays gone.
\<close>

definition send_json :: "json \<Rightarrow> socket \<Rightarrow> exn + socket" where
  "send_json m s =
     (if connected s then Inr (s\<lparr>sent := sent s @ [m]\<rparr>) else Inl WebSocketDisconnect)"

section \<open>reload_endpoint\<close>

definition reload_endpoint ::
  "string list \<Rightarrow> string list option \<Rightarrow> string list option \<Rightarrow> wfilter option \<Rightarrow> handler_class"
where
  "reload_endpoint wp idirs ipats flt =
     \<lparr>route_path = ''/__reload__'', watch_paths = wp, ignore_dirs = idirs,
      ignore_entity_patterns = ipats, watch_filter = flt\<rparr>"

fun truthy :: "wfilter \<Rightarrow> bool" where
  "truthy (DefaultFilter d p) = True"
| "truthy (CustomFilter n b) = b"

text \<open>
  \<^verbatim>\<open>DefaultFilter(ignore_dirs=d, ignore_entity_patterns=p)\<close> of the watch library (not part
  of this module): the constructor compiles every entity pattern with \<^verbatim>\<open>re.compile\<close> and
  so raises \<^verbatim>\<open>re.error\<close> on a pattern that is not a regular expression; with \<^verbatim>\<open>None\<close> it
  takes the library's own patterns, which compile. Which strings \<^verbatim>\<open>re.compile\<close> accepts
  is the parameter \<open>rx\<close>.
\<close>

definition new_DefaultFilter ::
  "(string \<Rightarrow> bool) \<Rightarrow> string list option \<Rightarrow> string list option \<Rightarrow> exn + wfilter"
where
  "new_DefaultFilter rx d p =
     (case p of
        None \<Rightarrow> Inr (DefaultFilter d p)
      | Some ps \<Rightarrow> if list_all rx ps then Inr (DefaultFilter d p) else Inl ReError)"

text \<open>
  \<^verbatim>\<open>filter_class = watch_filter or DefaultFilter(ignore_dirs=..., ignore_entity_patterns=...)\<close>:
  \<^verbatim>\<open>or\<close> takes its left operand when it is truthy and evaluates the right one otherwise.
\<close>

definition filter_class :: "(string \<Rightarrow> bool) \<Rightarrow> handler_class \<Rightarrow> exn + wfilter" where
  "filter_class rx c =
     (case watch_filter c of
        Some f \<Rightarrow>
          if truthy f then Inr f
          else new_DefaultFilter rx (ignore_dirs c) (ignore_entity_patterns c)
      | None \<Rightarrow> new_DefaultFilter rx (ignore_dirs c) (ignore_entity_patterns c))"

text \<open>
  \<^verbatim>\<open>prompt_reload\<close>: reading \<^verbatim>\<open>self.ws\<close> raises when the attribute is missing; a falsy
  value skips the body; otherwise the debug line is logged and the reload message sent.
\<close>

definition prompt_reload :: "world \<Rightarrow> exn option \<times> world" where
  "prompt_reload w =
     (case ws w of
        None \<Rightarrow> (Some AttributeError, w)
      | Some PyNone \<Rightarrow> (None, w)
      | Some (SockRef k) \<Rightarrow>
          (let w1 = w\<lparr>logs := logs w @ [''prompting reload'']\<rparr> in
           case send_json reload_msg (socks w1 k) of
             Inl e \<Rightarrow> (Some e, w1)
           | Inr s \<Rightarrow> (None, w1\<lparr>socks := (socks w1)(k := s)\<rparr>)))"

text \<open>\<^verbatim>\<open>asyncio.create_task\<close>: a new task, which does not run before the caller suspends.\<close>

definition create_task :: "world \<Rightarrow> nat \<times> world" where
  "create_task w =
     (length (tasks w), w\<lparr>tasks := tasks w @ [\<lparr>st = Scheduled, cancel_requested = False\<rparr>]\<rparr>)"

text \<open>
  \<^verbatim>\<open>on_accept\<close>, up to its only suspension point, the \<^verbatim>\<open>await\<close> of the ping send: the
  four statements in source order. The result is the exception that leaves the method,
  if any.
\<close>

definition on_accept :: "nat \<Rightarrow> world \<Rightarrow> exn option \<times> world" where
  "on_accept socket w =
     (let w1 = w\<lparr>logs := logs w @ [''reload websocket connecting'']\<rparr> in
      case create_task w1 of
        (t, w2) \<Rightarrow>
          (let w3 = w2\<lparr>watch_task := Some t\<rparr>;
               w4 = w3\<lparr>ws := Some (SockRef socket)\<rparr>
           in case send_json (ping_msg (version_id w4)) (socks w4 socket) of
                Inl e \<Rightarrow> (Some e, w4)
              | Inr s \<Rightarrow> (None, w4\<lparr>socks := (socks w4)(socket := s)\<rparr>)))"

text \<open>
  \<^verbatim>\<open>Task.cancel()\<close>: nothing on a finished task; otherwise \<^verbatim>\<open>CancelledError\<close> is thrown
  into the task when it next runs.
\<close>

definition cancel :: "nat \<Rightarrow> world \<Rightarrow> world" where
  "cancel i w =
     (if i < length (tasks w) then
        (case st (tasks w ! i) of
           Done _ \<Rightarrow> w
         | _ \<Rightarrow> w\<lparr>tasks := (tasks w)[i := (tasks w ! i)\<lparr>cancel_requested := True\<rparr>]\<rparr>)
      else w)"

text \<open>
  \<^verbatim>\<open>on_disconnect\<close> up to \<^verbatim>\<open>await self._watch_task\<close>: the debug line, the attribute read
  (which raises when \<^verbatim>\<open>on_accept\<close> never ran), the cancel, and the suspension on the task.
\<close>

definition on_disconnect_begin :: "world \<Rightarrow> exn option \<times> world" where
  "on_disconnect_begin w =
     (let w1 = w\<lparr>logs := logs w @ [''reload websocket disconnecting'']\<rparr> in
      case watch_task w1 of
        None \<Rightarrow> (Some AttributeError, w1)
      | Some t \<Rightarrow> (None, (cancel t w1)\<lparr>awaiting := awaiting w1 @ [t]\<rparr>))"

text \<open>What \<^verbatim>\<open>await task\<close> raises in the awaiting coroutine once the task has finished.\<close>

fun raised :: "outcome \<Rightarrow> exn option" where
  "raised Completed = None"
| "raised Cancelled = Some CancelledError"
| "raised (Failed e) = Some e"

text \<open>
  \<^verbatim>\<open>on_disconnect\<close> from the \<^verbatim>\<open>await\<close> on: the only handler is
  \<^verbatim>\<open>except asyncio.CancelledError\<close>, which logs a debug line.
\<close>

definition on_disconnect_resume :: "outcome \<Rightarrow> world \<Rightarrow> exn option \<times> world" where
  "on_disconnect_resume oc w =
     (case raised oc of
        None \<Rightarrow> (None, w)
      | Some e \<Rightarrow>
          if e = CancelledError then (None, w\<lparr>logs := logs w @ [''file watcher cancelled'']\<rparr>)
          else (Some e, w))"

definition on_receive :: "string \<Rightarrow> world \<Rightarrow> string \<times> world" where
  "on_receive data w = (data, w)"

section \<open>The watch task\<close>

definition set_task :: "nat \<Rightarrow> tstate \<Rightarrow> world \<Rightarrow> world" where
  "set_task i s w = w\<lparr>tasks := (tasks w)[i := (tasks w ! i)\<lparr>st := s\<rparr>]\<rparr>"

text \<open>
  \<^verbatim>\<open>watch_reload(prompt_reload)\<close> as task \<open>i\<close>: one resumption, up to its next
  suspension. A pending cancellation ends it (the coroutine catches nothing). The first
  run evaluates \<^verbatim>\<open>filter_class\<close>, whose exception ends the task before the watcher is
  called, and then calls \<^verbatim>\<open>awatch\<close>; each later run takes the oldest batch the watcher
  has ready and awaits \<^verbatim>\<open>prompt_reload()\<close>, whose exception ends the task. With no batch
  ready the task stays suspended.
\<close>

definition watch_reload ::
  "(string \<Rightarrow> bool) \<Rightarrow> handler_class \<Rightarrow> nat \<Rightarrow> world \<Rightarrow> world"
where
  "watch_reload rx c i w =
     (if i < length (tasks w) then
        (case st (tasks w ! i) of
           Done _ \<Rightarrow> w
         | Scheduled \<Rightarrow>
             if cancel_requested (tasks w ! i) then set_task i (Done Cancelled) w
             else (case filter_class rx c of
                     Inl e \<Rightarrow> set_task i (Done (Failed e)) w
                   | Inr f \<Rightarrow> set_task i (Watching (watch_paths c) f []) w)
         | Watching ps f q \<Rightarrow>
             if cancel_requested (tasks w ! i) then set_task i (Done Cancelled) w
             else (case q of
                     [] \<Rightarrow> w
                   | b # q' \<Rightarrow>
                       (case prompt_reload w of
                          (None, w') \<Rightarrow> set_task i (Watching ps f q') w'
                        | (Some e, w') \<Rightarrow> set_task i (Done (Failed e)) w')))
      else w)"

text \<open>
  The watch library, seen from the task (the library is not part of this module; this
  is the contract the task relies on): a watcher over at least one root reports a
  non-empty batch of changed paths, which queues behind the batches not yet consumed.
  A watcher with no root has nothing to report.
\<close>

definition detect :: "nat \<Rightarrow> batch \<Rightarrow> world \<Rightarrow> world" where
  "detect i b w =
     (if i < length (tasks w) then
        (case st (tasks w ! i) of
           Watching ps f q \<Rightarrow>
             if ps \<noteq> [] \<and> b \<noteq> [] then set_task i (Watching ps f (q @ [b])) w else w
         | _ \<Rightarrow> w)
      else w)"

text \<open>
  The watcher's iterator ends, or raises, and the task, which catches nothing, ends with
  it. A task with a cancellation pending is ended by the cancellation instead.
\<close>

definition awatch_ends :: "nat \<Rightarrow> outcome \<Rightarrow> world \<Rightarrow> world" where
  "awatch_ends i oc w =
     (if i < length (tasks w) then
        (case st (tasks w ! i) of
           Watching ps f q \<Rightarrow>
             if cancel_requested (tasks w ! i) then w else set_task i (Done oc) w
         | _ \<Rightarrow> w)
      else w)"

definition peer_gone :: "nat \<Rightarrow> world \<Rightarrow> world" where
  "peer_gone k w = w\<lparr>socks := (socks w)(k := (socks w k)\<lparr>connected := False\<rparr>)\<rparr>"

section \<open>The event loop\<close>

text \<open>
  Scheduling is cooperative: a coroutine runs from one suspension point to the next
  without interruption. An event is one such run, or something the outside does: the
  host framework calls a handler method, a task is resumed, an \<^verbatim>\<open>on_disconnect\<close> waiting
  for a task is resumed once the task has finished, the watcher reports or fails, the
  peer goes away. A schedule is any list of events; an event that cannot happen in the
  current state changes nothing.
\<close>

datatype event =
    Accept nat
  | Receive string
  | Disconnect
  | Resume nat
  | RunTask nat
  | Detect nat batch
  | AwatchStop nat
  | AwatchRaise nat
  | Gone nat

definition escape :: "exn option \<times> world \<Rightarrow> world" where
  "escape r = (case r of (None, w) \<Rightarrow> w | (Some e, w) \<Rightarrow> w\<lparr>escaped := escaped w @ [e]\<rparr>)"

fun step :: "(string \<Rightarrow> bool) \<Rightarrow> handler_class \<Rightarrow> event \<Rightarrow> world \<Rightarrow> world" where
  "step rx c (Accept k) w = escape (on_accept k w)"
| "step rx c (Receive d) w = snd (on_receive d w)"
| "step rx c Disconnect w = escape (on_disconnect_begin w)"
| "step rx c (Resume t) w =
     (if t \<in> set (awaiting w) \<and> t < length (tasks w) then
        (case st (tasks w ! t) of
           Done oc \<Rightarrow> escape (on_disconnect_resume oc (w\<lparr>awaiting := remove1 t (awaiting w)\<rparr>))
         | _ \<Rightarrow> w)
      else w)"
| "step rx c (RunTask i) w = watch_reload rx c i w"
| "step rx c (Detect i b) w = detect i b w"
| "step rx c (AwatchStop i) w = awatch_ends i Completed w"
| "step rx c (AwatchRaise i) w = awatch_ends i (Failed WatchError) w"
| "step rx c (Gone k) w = peer_gone k w"

definition run ::
  "(string \<Rightarrow> bool) \<Rightarrow> handler_class \<Rightarrow> event list \<Rightarrow> world \<Rightarrow> world"
where
  "run rx c es w = fold (step rx c) es w"

section \<open>BrowserReloadPlugin\<close>

definition BrowserReloadPlugin ::
  "string list \<Rightarrow> string list option \<Rightarrow> string list option \<Rightarrow> wfilter option \<Rightarrow> plugin"
where
  "BrowserReloadPlugin wp idirs ipats flt =
     \<lparr>p_watch_paths = wp, p_ignore_dirs = idirs, p_ignore_entity_patterns = ipats,
      p_watch_filter = flt\<rparr>"

text \<open>
  \<^verbatim>\<open>create_static_files_router(directories=[Path(__file__).parent / "static"], ...)\<close>;
  the directory of the module file is the parameter.
\<close>

definition static_files_router :: "string \<Rightarrow> static_router" where
  "static_files_router module_dir =
     \<lparr>directories = [module_dir @ ''/static''], sr_path = ''/__reload__/static'',
      sr_name = ''browser_reload_static'', sr_opt = [(''exclude_from_auth'', True)],
      include_in_schema = False\<rparr>"

definition on_app_init :: "string \<Rightarrow> plugin \<Rightarrow> app_config \<Rightarrow> app_config" where
  "on_app_init module_dir p app =
     (if debug app then
        (let app1 = app\<lparr>route_handlers := route_handlers app @
                     [Listener (reload_endpoint (p_watch_paths p) (p_ignore_dirs p)
                        (p_ignore_entity_patterns p) (p_watch_filter p))]\<rparr>
         in app1\<lparr>route_handlers := route_handlers app1 @
                     [StaticFiles (static_files_router module_dir)]\<rparr>)
      else app)"

section \<open>Invariants and schedules\<close>

text \<open>
  On every connection the ping comes first, and the connection that \<^verbatim>\<open>self.ws\<close> refers to
  has either been sent something or is gone.
\<close>

definition ping_inv :: "world \<Rightarrow> bool" where
  "ping_inv w \<longleftrightarrow>
     (\<forall>k. (sent (socks w k) = [] \<or> hd (sent (socks w k)) = ping_msg (version_id w)) \<and>
          (ws w = Some (SockRef k) \<and> connected (socks w k) \<longrightarrow> sent (socks w k) \<noteq> []))"

text \<open>The module global holds \<open>v\<close>, and nothing but reloads and pings carrying \<open>v\<close> was sent.\<close>

definition stamp_inv :: "string \<Rightarrow> world \<Rightarrow> bool" where
  "stamp_inv v w \<longleftrightarrow>
     version_id w = v \<and> (\<forall>k. \<forall>m \<in> set (sent (socks w k)). m = reload_msg \<or> m = ping_msg v)"

text \<open>Every watcher has no root and no batch ready, and no reload was sent.\<close>

definition idle_inv :: "world \<Rightarrow> bool" where
  "idle_inv w \<longleftrightarrow>
     (\<forall>i < length (tasks w). \<forall>ps f q. st (tasks w ! i) = Watching ps f q \<longrightarrow> ps = [] \<and> q = []) \<and>
     (\<forall>k. reload_msg \<notin> set (sent (socks w k)))"

text \<open>The batches that a schedule has the watcher of task \<open>i\<close> report, in order.\<close>

fun reported :: "nat \<Rightarrow> event list \<Rightarrow> batch list" where
  "reported i [] = []"
| "reported i (Detect j b # es) = (if j = i then b # reported i es else reported i es)"
| "reported i (e # es) = reported i es"

section \<open>What each operation leaves alone\<close>

lemmas evals = run_def new_DefaultFilter_def on_accept_def create_task_def send_json_def prompt_reload_def
  watch_reload_def set_task_def detect_def awatch_ends_def peer_gone_def escape_def
  on_disconnect_begin_def on_disconnect_resume_def cancel_def on_receive_def
  module_load_def reload_endpoint_def filter_class_def ping_msg_def reload_msg_def Let_def

lemma ping_ne_reload: "ping_msg v \<noteq> reload_msg"
  by (simp add: ping_msg_def reload_msg_def)

lemma prompt_reload_fields:
  "version_id (snd (prompt_reload w)) = version_id w"
  "ws (snd (prompt_reload w)) = ws w"
  by (simp_all add: prompt_reload_def send_json_def Let_def split: option.splits pyref.splits)

lemma prompt_reload_socks:
  "socks (snd (prompt_reload w)) =
     (case ws w of
        Some (SockRef k) \<Rightarrow>
          if connected (socks w k)
          then (socks w)(k := (socks w k)\<lparr>sent := sent (socks w k) @ [reload_msg]\<rparr>)
          else socks w
      | _ \<Rightarrow> socks w)"
  by (simp add: prompt_reload_def send_json_def Let_def split: option.splits pyref.splits)

lemma on_accept_fields:
  "version_id (snd (on_accept k w)) = version_id w"
  "ws (snd (on_accept k w)) = Some (SockRef k)"
  "tasks (snd (on_accept k w)) = tasks w @ [\<lparr>st = Scheduled, cancel_requested = False\<rparr>]"
  "watch_task (snd (on_accept k w)) = Some (length (tasks w))"
  "escaped (snd (on_accept k w)) = escaped w"
  "fst (on_accept k w) = (if connected (socks w k) then None else Some WebSocketDisconnect)"
  "socks (snd (on_accept k w)) =
     (if connected (socks w k)
      then (socks w)(k := (socks w k)\<lparr>sent := sent (socks w k) @ [ping_msg (version_id w)]\<rparr>)
      else socks w)"
  by (simp_all add: on_accept_def create_task_def send_json_def Let_def)

lemma escape_fields:
  "version_id (escape r) = version_id (snd r)"
  "ws (escape r) = ws (snd r)"
  "socks (escape r) = socks (snd r)"
  "tasks (escape r) = tasks (snd r)"
  "escaped (escape r) = escaped (snd r) @ (case fst r of None \<Rightarrow> [] | Some e \<Rightarrow> [e])"
  by (simp_all add: escape_def split: prod.splits option.splits)

lemma set_task_fields:
  "version_id (set_task i s w) = version_id w"
  "ws (set_task i s w) = ws w"
  "socks (set_task i s w) = socks w"
  "tasks (set_task i s w) = (tasks w)[i := (tasks w ! i)\<lparr>st := s\<rparr>]"
  by (simp_all add: set_task_def)

lemma cancel_fields:
  "version_id (cancel i w) = version_id w"
  "ws (cancel i w) = ws w"
  "socks (cancel i w) = socks w"
  by (simp_all add: cancel_def split: tstate.splits)

lemma cancel_tasks:
  "length (tasks (cancel t w)) = length (tasks w)"
  "i < length (tasks w) \<Longrightarrow> st (tasks (cancel t w) ! i) = st (tasks w ! i)"
  by (auto simp: cancel_def nth_list_update split: tstate.splits)

lemma on_disconnect_begin_fields:
  "version_id (snd (on_disconnect_begin w)) = version_id w"
  "ws (snd (on_disconnect_begin w)) = ws w"
  "socks (snd (on_disconnect_begin w)) = socks w"
  by (simp_all add: on_disconnect_begin_def Let_def cancel_fields split: option.splits)

lemma on_disconnect_resume_fields:
  "version_id (snd (on_disconnect_resume oc w)) = version_id w"
  "ws (snd (on_disconnect_resume oc w)) = ws w"
  "socks (snd (on_disconnect_resume oc w)) = socks w"
  "tasks (snd (on_disconnect_resume oc w)) = tasks w"
  by (simp_all add: on_disconnect_resume_def split: option.splits)

lemma watch_reload_fields:
  "version_id (watch_reload rx c i w) = version_id w"
  "ws (watch_reload rx c i w) = ws w"
  using prompt_reload_fields[of w]
  by (auto simp: watch_reload_def set_task_fields
      split: tstate.splits list.splits prod.splits option.splits sum.splits)

lemma watch_reload_socks:
  "socks (watch_reload rx c i w) = socks w \<or>
   socks (watch_reload rx c i w) = socks (snd (prompt_reload w))"
  by (auto simp: watch_reload_def set_task_fields
      split: tstate.splits list.splits prod.splits option.splits sum.splits)

lemma step_version_id: "version_id (step rx c e w) = version_id w"
  by (cases e)
     (simp_all add: escape_fields on_accept_fields on_receive_def on_disconnect_begin_fields
        on_disconnect_resume_fields watch_reload_fields detect_def awatch_ends_def peer_gone_def
        set_task_fields split: tstate.splits)

lemma run_version_id: "version_id (run rx c es w) = version_id w"
  by (induction es arbitrary: w) (simp_all add: run_def step_version_id)

text \<open>
  All that one event can do to \<^verbatim>\<open>self.ws\<close> and to the connections: nothing; a reload
  appended on the live connection \<^verbatim>\<open>self.ws\<close> refers to; \<^verbatim>\<open>self.ws\<close> set to a connection
  and, if it is live, the ping appended there; a connection lost.
\<close>

lemma step_effect:
  "(ws (step rx c e w) = ws w \<and> socks (step rx c e w) = socks w)
   \<or> (\<exists>k. ws w = Some (SockRef k) \<and> connected (socks w k) \<and> ws (step rx c e w) = ws w \<and>
          socks (step rx c e w) =
            (socks w)(k := (socks w k)\<lparr>sent := sent (socks w k) @ [reload_msg]\<rparr>))
   \<or> (\<exists>k. ws (step rx c e w) = Some (SockRef k) \<and> connected (socks w k) \<and>
          socks (step rx c e w) =
            (socks w)(k := (socks w k)\<lparr>sent := sent (socks w k) @ [ping_msg (version_id w)]\<rparr>))
   \<or> (\<exists>k. ws (step rx c e w) = Some (SockRef k) \<and> \<not> connected (socks w k) \<and>
          socks (step rx c e w) = socks w)
   \<or> (\<exists>k. ws (step rx c e w) = ws w \<and>
          socks (step rx c e w) = (socks w)(k := (socks w k)\<lparr>connected := False\<rparr>))"
proof (cases e)
  case (Accept k)
  then show ?thesis by (simp add: escape_fields on_accept_fields)
next
  case (RunTask i)
  have "ws (watch_reload rx c i w) = ws w" by (rule watch_reload_fields)
  moreover have "socks (watch_reload rx c i w) = socks w \<or>
      socks (watch_reload rx c i w) = socks (snd (prompt_reload w))"
    by (rule watch_reload_socks)
  ultimately show ?thesis using RunTask
    by (auto simp: prompt_reload_socks split: option.splits pyref.splits if_splits)
next
  case (Gone k)
  then have "ws (step rx c e w) = ws w \<and>
      socks (step rx c e w) = (socks w)(k := (socks w k)\<lparr>connected := False\<rparr>)"
    by (simp add: peer_gone_def)
  then show ?thesis by blast
qed (simp_all add: escape_fields on_receive_def on_disconnect_begin_fields
        on_disconnect_resume_fields detect_def awatch_ends_def set_task_fields
        split: tstate.splits)

section \<open>Ping before reload\<close>

lemma ping_inv_step:
  assumes "ping_inv w"
  shows "ping_inv (step rx c e w)"
proof -
  have v: "version_id (step rx c e w) = version_id w" by (rule step_version_id)
  from step_effect[of rx c e w] show ?thesis
  proof (elim disjE exE conjE)
    assume "ws (step rx c e w) = ws w" "socks (step rx c e w) = socks w"
    with assms v show ?thesis by (simp add: ping_inv_def)
  next
    fix k
    assume "ws w = Some (SockRef k)" "connected (socks w k)" "ws (step rx c e w) = ws w"
      "socks (step rx c e w) =
         (socks w)(k := (socks w k)\<lparr>sent := sent (socks w k) @ [reload_msg]\<rparr>)"
    with assms v show ?thesis by (auto simp: ping_inv_def)
  next
    fix k
    assume "ws (step rx c e w) = Some (SockRef k)" "connected (socks w k)"
      "socks (step rx c e w) =
         (socks w)(k := (socks w k)\<lparr>sent := sent (socks w k) @ [ping_msg (version_id w)]\<rparr>)"
    with assms v show ?thesis by (auto simp: ping_inv_def hd_append)
  next
    fix k
    assume "ws (step rx c e w) = Some (SockRef k)" "\<not> connected (socks w k)"
      "socks (step rx c e w) = socks w"
    with assms v show ?thesis by (auto simp: ping_inv_def)
  next
    fix k
    assume "ws (step rx c e w) = ws w"
      "socks (step rx c e w) = (socks w)(k := (socks w k)\<lparr>connected := False\<rparr>)"
    with assms v show ?thesis by (auto simp: ping_inv_def)
  qed
qed

lemma ping_inv_run: "ping_inv w \<Longrightarrow> ping_inv (run rx c es w)"
  by (induction es arbitrary: w) (simp_all add: run_def ping_inv_step)

lemma ping_inv_module_load: "ping_inv (module_load v)"
  by (simp add: ping_inv_def module_load_def)

text \<open>
  C1: on every connection \<open>k\<close>, under every schedule of the event loop, the messages sent
  are none or begin with the ping carrying the version stamp, and a reload message is
  never the first one: the ping is sent before any reload.
\<close>

theorem ping_before_reload:
  "(sent (socks (run rx c es (module_load v)) k) = [] \<or>
    hd (sent (socks (run rx c es (module_load v)) k)) = ping_msg v) \<and>
   (\<forall>i < length (sent (socks (run rx c es (module_load v)) k)).
      sent (socks (run rx c es (module_load v)) k) ! i = reload_msg \<longrightarrow> 0 < i)"
proof -
  let ?S = "sent (socks (run rx c es (module_load v)) k)"
  have "ping_inv (run rx c es (module_load v))"
    by (rule ping_inv_run) (rule ping_inv_module_load)
  moreover have "version_id (run rx c es (module_load v)) = v"
    by (simp add: run_version_id module_load_def)
  ultimately have first: "?S = [] \<or> hd ?S = ping_msg v"
    by (simp add: ping_inv_def)
  have "0 < i" if "i < length ?S" "?S ! i = reload_msg" for i
  proof (rule ccontr)
    assume "\<not> 0 < i"
    then have "i = 0" by simp
    with that have "?S \<noteq> []" "hd ?S = reload_msg" by (auto simp: hd_conv_nth)
    with first show False using ping_ne_reload[of v] by auto
  qed
  with first show ?thesis by blast
qed

theorem ping_before_reload_witness:
  "sent (socks (run (\<lambda>_. True) (reload_endpoint [''src''] None None None)
       [Accept 0, RunTask 0, Detect 0 [''a.py''], RunTask 0] (module_load ''v1'')) 0) ! 1
     = reload_msg \<and>
   1 < length (sent (socks (run (\<lambda>_. True) (reload_endpoint [''src''] None None None)
       [Accept 0, RunTask 0, Detect 0 [''a.py''], RunTask 0] (module_load ''v1'')) 0)) \<and>
   hd (sent (socks (run (\<lambda>_. True) (reload_endpoint [''src''] None None None)
       [Accept 0, RunTask 0, Detect 0 [''a.py''], RunTask 0] (module_load ''v1'')) 0))
     = ping_msg ''v1''"
  using ping_before_reload[where rx = "\<lambda>_. True" and c = "reload_endpoint [''src''] None None None"
      and es = "[Accept 0, RunTask 0, Detect 0 [''a.py''], RunTask 0]" and v = "''v1''" and k = 0]
  by (simp add: evals)

section \<open>The watch task and the ping\<close>

text \<open>
  The peer of connection 0 is gone when the connection is accepted: the ping send raises,
  yet the task exists, and when the event loop runs it next it starts watching.
\<close>

theorem ping_failure_counterexample:
  "fst (on_accept 0 (peer_gone 0 (module_load ''v1''))) = Some WebSocketDisconnect \<and>
   tasks (snd (on_accept 0 (peer_gone 0 (module_load ''v1'')))) =
     [\<lparr>st = Scheduled, cancel_requested = False\<rparr>] \<and>
   tasks (run (\<lambda>_. True) (reload_endpoint [''src''] None None None) [Gone 0, Accept 0, RunTask 0]
     (module_load ''v1'')) =
     [\<lparr>st = Watching [''src''] (DefaultFilter None None) [], cancel_requested = False\<rparr>] \<and>
   escaped (run (\<lambda>_. True) (reload_endpoint [''src''] None None None) [Gone 0, Accept 0, RunTask 0]
     (module_load ''v1'')) = [WebSocketDisconnect]"
  by (simp add: evals)

text \<open>
  C2, as the code has it: \<^verbatim>\<open>on_accept\<close> creates the watch task and stores the connection
  in \<^verbatim>\<open>self.ws\<close> before the ping is sent, whether or not the send succeeds. When the peer
  is gone the ping is not sent and \<^verbatim>\<open>WebSocketDisconnect\<close> leaves the method, with the
  task created and not cancelled.
\<close>

theorem on_accept_task_before_ping:
  "tasks (snd (on_accept k w)) = tasks w @ [\<lparr>st = Scheduled, cancel_requested = False\<rparr>] \<and>
   watch_task (snd (on_accept k w)) = Some (length (tasks w)) \<and>
   ws (snd (on_accept k w)) = Some (SockRef k) \<and>
   fst (on_accept k w) = (if connected (socks w k) then None else Some WebSocketDisconnect) \<and>
   sent (socks (snd (on_accept k w)) k) =
     (if connected (socks w k) then sent (socks w k) @ [ping_msg (version_id w)]
      else sent (socks w k))"
  by (simp add: on_accept_fields)

section \<open>Teardown\<close>

text \<open>
  The watcher raises while the session is active; at teardown the exception leaves
  \<^verbatim>\<open>on_disconnect\<close>, and the log holds nothing about it.
\<close>

theorem teardown_counterexample:
  "escaped (run (\<lambda>_. True) (reload_endpoint [''src''] None None None)
      [Accept 0, RunTask 0, AwatchRaise 0, Disconnect, Resume 0] (module_load ''v1''))
     = [WatchError] \<and>
   logs (run (\<lambda>_. True) (reload_endpoint [''src''] None None None)
      [Accept 0, RunTask 0, AwatchRaise 0, Disconnect, Resume 0] (module_load ''v1'')) =
     [''reload websocket connecting'', ''reload websocket disconnecting'']"
  by (simp add: evals)

text \<open>
  C3, as the code has it: at teardown a cancelled watch task is swallowed, with one debug
  line, and a task that ended normally is passed over; any other exception of the task
  leaves \<^verbatim>\<open>on_disconnect\<close>, unlogged. A task still alive at teardown is cancelled: nothing
  leaves \<^verbatim>\<open>on_disconnect\<close> and the two debug lines are logged.
\<close>

theorem teardown_outcomes:
  "on_disconnect_resume Cancelled w =
     (None, w\<lparr>logs := logs w @ [''file watcher cancelled'']\<rparr>) \<and>
   on_disconnect_resume Completed w = (None, w) \<and>
   (e \<noteq> CancelledError \<longrightarrow> on_disconnect_resume (Failed e) w = (Some e, w)) \<and>
   (watch_task w = Some t \<and> t < length (tasks w) \<and> (\<forall>oc. st (tasks w ! t) \<noteq> Done oc) \<longrightarrow>
      escaped (run rx c [Disconnect, RunTask t, Resume t] w) = escaped w \<and>
      logs (run rx c [Disconnect, RunTask t, Resume t] w) =
        logs w @ [''reload websocket disconnecting'', ''file watcher cancelled''] \<and>
      st (tasks (run rx c [Disconnect, RunTask t, Resume t] w) ! t) = Done Cancelled)"
proof -
  have "escaped (run rx c [Disconnect, RunTask t, Resume t] w) = escaped w \<and>
      logs (run rx c [Disconnect, RunTask t, Resume t] w) =
        logs w @ [''reload websocket disconnecting'', ''file watcher cancelled''] \<and>
      st (tasks (run rx c [Disconnect, RunTask t, Resume t] w) ! t) = Done Cancelled"
    if "watch_task w = Some t" "t < length (tasks w)" "\<forall>oc. st (tasks w ! t) \<noteq> Done oc"
    using that by (cases "st (tasks w ! t)") (auto simp: evals)
  then show ?thesis by (simp add: on_disconnect_resume_def)
qed

theorem teardown_outcomes_witness:
  "WatchError \<noteq> CancelledError \<and>
   on_disconnect_resume (Failed WatchError) (module_load ''v1'')
     = (Some WatchError, module_load ''v1'') \<and>
   watch_task (run (\<lambda>_. True) (reload_endpoint [''src''] None None None) [Accept 0, RunTask 0]
     (module_load ''v1'')) = Some 0 \<and>
   escaped (run (\<lambda>_. True) (reload_endpoint [''src''] None None None) [Disconnect, RunTask 0, Resume 0]
     (run (\<lambda>_. True) (reload_endpoint [''src''] None None None) [Accept 0, RunTask 0]
       (module_load ''v1''))) = []"
  using teardown_outcomes[where w = "module_load ''v1''" and e = WatchError]
    teardown_outcomes[where w = "run (\<lambda>_. True) (reload_endpoint [''src''] None None None)
        [Accept 0, RunTask 0] (module_load ''v1'')"
      and e = WatchError and t = 0 and rx = "\<lambda>_. True" and c = "reload_endpoint [''src''] None None None"]
  by (simp add: evals)

section \<open>Version stamp\<close>

lemma stamp_inv_step:
  assumes "stamp_inv v w"
  shows "stamp_inv v (step rx c e w)"
proof -
  have v: "version_id (step rx c e w) = version_id w" by (rule step_version_id)
  from step_effect[of rx c e w] assms v show ?thesis
    by (elim disjE exE conjE) (auto simp: stamp_inv_def)
qed

lemma stamp_inv_run: "stamp_inv v w \<Longrightarrow> stamp_inv v (run rx c es w)"
  by (induction es arbitrary: w) (simp_all add: run_def stamp_inv_step)

text \<open>
  C4: the module global is set once, at module load, and no schedule changes it; every
  ping sent on any connection during the run carries that one string as its
  \<^verbatim>\<open>versionId\<close>, so any two sessions of one process receive the same value.
\<close>

theorem version_stamp_shared:
  "version_id (run rx c es (module_load v)) = v \<and>
   (\<forall>k. \<forall>m \<in> set (sent (socks (run rx c es (module_load v)) k)).
      map_of m ''type'' = Some ''ping'' \<longrightarrow> m = ping_msg v \<and> map_of m ''versionId'' = Some v)"
proof -
  have "stamp_inv v (module_load v)" by (simp add: stamp_inv_def module_load_def)
  then have inv: "stamp_inv v (run rx c es (module_load v))" by (rule stamp_inv_run)
  have "m = ping_msg v \<and> map_of m ''versionId'' = Some v"
    if "m \<in> set (sent (socks (run rx c es (module_load v)) k))" "map_of m ''type'' = Some ''ping''"
    for k m
  proof -
    from inv that(1) have "m = reload_msg \<or> m = ping_msg v"
      unfolding stamp_inv_def by blast
    with that(2) show ?thesis by (auto simp: reload_msg_def ping_msg_def)
  qed
  with inv show ?thesis unfolding stamp_inv_def by blast
qed

theorem version_stamp_shared_witness:
  "ping_msg ''v1'' \<in> set (sent (socks (run (\<lambda>_. True) (reload_endpoint [''src''] None None None)
       [Accept 0, Accept 1] (module_load ''v1'')) 0)) \<and>
   ping_msg ''v1'' \<in> set (sent (socks (run (\<lambda>_. True) (reload_endpoint [''src''] None None None)
       [Accept 0, Accept 1] (module_load ''v1'')) 1)) \<and>
   map_of (ping_msg ''v1'') ''type'' = Some ''ping'' \<and>
   map_of (ping_msg ''v1'') ''versionId'' = Some ''v1''"
  using version_stamp_shared[where rx = "\<lambda>_. True" and c = "reload_endpoint [''src''] None None None"
      and es = "[Accept 0, Accept 1]" and v = "''v1''"]
  by (simp add: evals)

section \<open>Registration\<close>

text \<open>
  C5: with the debug flag off \<^verbatim>\<open>on_app_init\<close> returns the configuration it was given, so
  no route is added; with the flag on exactly two handlers are appended, the reload
  endpoint at \<^verbatim>\<open>/__reload__\<close> and the static files router at \<^verbatim>\<open>/__reload__/static\<close>, in
  this order. The method takes and returns the configuration only: in neither mode does
  it create a task or call the watcher.
\<close>

theorem on_app_init_gated:
  "(\<not> debug app \<longrightarrow> on_app_init d p app = app) \<and>
   (debug app \<longrightarrow>
      route_handlers (on_app_init d p app) = route_handlers app @
        [Listener (reload_endpoint (p_watch_paths p) (p_ignore_dirs p)
           (p_ignore_entity_patterns p) (p_watch_filter p)),
         StaticFiles (static_files_router d)] \<and>
      debug (on_app_init d p app) \<and>
      route_path (reload_endpoint (p_watch_paths p) (p_ignore_dirs p)
           (p_ignore_entity_patterns p) (p_watch_filter p)) = ''/__reload__'' \<and>
      sr_path (static_files_router d) = ''/__reload__/static'')"
  by (simp add: on_app_init_def Let_def reload_endpoint_def static_files_router_def)

theorem on_app_init_gated_witness:
  "\<not> debug \<lparr>debug = False, route_handlers = [HostRoute 0]\<rparr> \<and>
   on_app_init ''pkg'' (BrowserReloadPlugin [''src''] None None None)
     \<lparr>debug = False, route_handlers = [HostRoute 0]\<rparr>
     = \<lparr>debug = False, route_handlers = [HostRoute 0]\<rparr> \<and>
   debug \<lparr>debug = True, route_handlers = [HostRoute 0]\<rparr> \<and>
   length (route_handlers (on_app_init ''pkg'' (BrowserReloadPlugin [''src''] None None None)
     \<lparr>debug = True, route_handlers = [HostRoute 0]\<rparr>)) = 3"
  using on_app_init_gated[where app = "\<lparr>debug = False, route_handlers = [HostRoute 0]\<rparr>"
      and d = "''pkg''" and p = "BrowserReloadPlugin [''src''] None None None"]
    on_app_init_gated[where app = "\<lparr>debug = True, route_handlers = [HostRoute 0]\<rparr>"
      and d = "''pkg''" and p = "BrowserReloadPlugin [''src''] None None None"]
  by simp

section \<open>The filter\<close>

text \<open>
  A falsy object supplied as \<^verbatim>\<open>watch_filter\<close> is not the filter used: the default filter is
  built from the ignore settings and the watcher is started with it. And with no
  override, an entity pattern that \<^verbatim>\<open>re.compile\<close> rejects (one that begins with the
  repetition operator) leaves no filter at all: the task ends with the error on its
  first run.
\<close>

theorem filter_override_counterexample:
  "filter_class (\<lambda>_. True)
     (reload_endpoint [''src''] (Some [''node_modules'']) None (Some (CustomFilter 7 False)))
     = Inr (DefaultFilter (Some [''node_modules'']) None) \<and>
   tasks (run (\<lambda>_. True)
     (reload_endpoint [''src''] (Some [''node_modules'']) None (Some (CustomFilter 7 False)))
     [Accept 0, RunTask 0] (module_load ''v1'')) =
     [\<lparr>st = Watching [''src''] (DefaultFilter (Some [''node_modules'']) None) [],
       cancel_requested = False\<rparr>] \<and>
   tasks (run (\<lambda>p. p \<noteq> ''*.pyc'') (reload_endpoint [''src''] None (Some [''*.pyc'']) None)
     [Accept 0, RunTask 0] (module_load ''v1'')) =
     [\<lparr>st = Done (Failed ReError), cancel_requested = False\<rparr>]"
  by (simp add: evals)

text \<open>
  C6, as the code has it: a supplied \<^verbatim>\<open>watch_filter\<close> that is truthy is the filter used,
  whatever \<^verbatim>\<open>ignore_dirs\<close> and \<^verbatim>\<open>ignore_entity_patterns\<close> are, and the watcher of a session
  is started with the configured paths and exactly this object. With none supplied, or
  a falsy one, the filter is the default filter built from exactly these two, provided
  every entity pattern compiles; if one does not, the construction raises and the task
  ends with the error before the watcher is called.
\<close>

theorem filter_override:
  "(watch_filter c = Some f \<and> truthy f \<longrightarrow>
      filter_class rx c = Inr f \<and>
      filter_class rx (c\<lparr>ignore_dirs := d, ignore_entity_patterns := p\<rparr>) = Inr f \<and>
      tasks (run rx c [Accept k, RunTask 0] (module_load v)) =
        [\<lparr>st = Watching (watch_paths c) f [], cancel_requested = False\<rparr>]) \<and>
   ((watch_filter c = None \<or> (watch_filter c = Some f \<and> \<not> truthy f)) \<and>
    (ignore_entity_patterns c = None \<or>
     (ignore_entity_patterns c = Some ps \<and> list_all rx ps)) \<longrightarrow>
      filter_class rx c = Inr (DefaultFilter (ignore_dirs c) (ignore_entity_patterns c)) \<and>
      tasks (run rx c [Accept k, RunTask 0] (module_load v)) =
        [\<lparr>st = Watching (watch_paths c)
                (DefaultFilter (ignore_dirs c) (ignore_entity_patterns c)) [],
          cancel_requested = False\<rparr>]) \<and>
   ((watch_filter c = None \<or> (watch_filter c = Some f \<and> \<not> truthy f)) \<and>
    ignore_entity_patterns c = Some ps \<and> \<not> list_all rx ps \<longrightarrow>
      filter_class rx c = Inl ReError \<and>
      tasks (run rx c [Accept k, RunTask 0] (module_load v)) =
        [\<lparr>st = Done (Failed ReError), cancel_requested = False\<rparr>])"
  by (auto simp: filter_class_def new_DefaultFilter_def run_def on_accept_fields escape_fields
      watch_reload_def set_task_def module_load_def)

theorem filter_override_witness:
  "truthy (CustomFilter 7 True) \<and>
   filter_class (\<lambda>_. True) (reload_endpoint [''src''] (Some [''node_modules''])
      (Some [''.*[.]pyc'']) (Some (CustomFilter 7 True))) = Inr (CustomFilter 7 True) \<and>
   list_all (\<lambda>_. True) [''.*[.]pyc''] \<and>
   filter_class (\<lambda>_. True) (reload_endpoint [''src''] (Some [''node_modules''])
      (Some [''.*[.]pyc'']) None)
     = Inr (DefaultFilter (Some [''node_modules'']) (Some [''.*[.]pyc''])) \<and>
   \<not> list_all (\<lambda>p. p \<noteq> ''*.pyc'') [''*.pyc''] \<and>
   filter_class (\<lambda>p. p \<noteq> ''*.pyc'') (reload_endpoint [''src''] None (Some [''*.pyc''])
      (Some (CustomFilter 7 False))) = Inl ReError"
  using filter_override[where rx = "\<lambda>_. True"
      and c = "reload_endpoint [''src''] (Some [''node_modules'']) (Some [''.*[.]pyc''])
        (Some (CustomFilter 7 True))"
      and f = "CustomFilter 7 True" and d = None and p = None and k = 0 and v = "''v1''"
      and ps = "[''.*[.]pyc'']"]
    filter_override[where rx = "\<lambda>_. True"
      and c = "reload_endpoint [''src''] (Some [''node_modules'']) (Some [''.*[.]pyc'']) None"
      and f = "CustomFilter 7 True" and d = None and p = None and k = 0 and v = "''v1''"
      and ps = "[''.*[.]pyc'']"]
    filter_override[where rx = "\<lambda>p. p \<noteq> ''*.pyc''"
      and c = "reload_endpoint [''src''] None (Some [''*.pyc'']) (Some (CustomFilter 7 False))"
      and f = "CustomFilter 7 False" and d = None and p = None and k = 0 and v = "''v1''"
      and ps = "[''*.pyc'']"]
  by (simp add: reload_endpoint_def)

section \<open>One reload per batch\<close>

lemma detect_many:
  assumes "i < length (tasks w)" "st (tasks w ! i) = Watching ps f q" "ps \<noteq> []"
    "\<forall>b \<in> set bs. b \<noteq> []"
  shows "i < length (tasks (run rx c (map (Detect i) bs) w)) \<and>
         st (tasks (run rx c (map (Detect i) bs) w) ! i) = Watching ps f (q @ bs) \<and>
         cancel_requested (tasks (run rx c (map (Detect i) bs) w) ! i)
           = cancel_requested (tasks w ! i) \<and>
         ws (run rx c (map (Detect i) bs) w) = ws w \<and>
         socks (run rx c (map (Detect i) bs) w) = socks w"
  using assms
proof (induction bs arbitrary: w q)
  case Nil
  then show ?case by (simp add: run_def)
next
  case (Cons b bs)
  let ?w1 = "step rx c (Detect i b) w"
  from Cons.prems have 1: "i < length (tasks ?w1)" "st (tasks ?w1 ! i) = Watching ps f (q @ [b])"
    "cancel_requested (tasks ?w1 ! i) = cancel_requested (tasks w ! i)"
    "ws ?w1 = ws w" "socks ?w1 = socks w"
    by (simp_all add: detect_def set_task_def)
  from Cons.prems have "\<forall>b \<in> set bs. b \<noteq> []" by simp
  from Cons.IH[OF 1(1) 1(2) Cons.prems(3) this] 1 show ?case
    by (simp add: run_def)
qed

lemma watch_reload_many:
  assumes "i < length (tasks w)" "st (tasks w ! i) = Watching ps f q"
    "\<not> cancel_requested (tasks w ! i)" "ws w = Some (SockRef k)" "connected (socks w k)"
    "n \<le> length q"
  shows "sent (socks (run rx c (replicate n (RunTask i)) w) k)
           = sent (socks w k) @ replicate n reload_msg \<and>
         st (tasks (run rx c (replicate n (RunTask i)) w) ! i) = Watching ps f (drop n q)"
  using assms
proof (induction n arbitrary: w q)
  case 0
  then show ?case by (simp add: run_def)
next
  case (Suc n)
  then obtain b q' where q: "q = b # q'" by (cases q) auto
  let ?w1 = "step rx c (RunTask i) w"
  from Suc.prems q have 1: "i < length (tasks ?w1)" "st (tasks ?w1 ! i) = Watching ps f q'"
    "\<not> cancel_requested (tasks ?w1 ! i)" "ws ?w1 = Some (SockRef k)" "connected (socks ?w1 k)"
    "sent (socks ?w1 k) = sent (socks w k) @ [reload_msg]"
    by (simp_all add: watch_reload_def prompt_reload_def send_json_def set_task_def Let_def)
  from Suc.prems q have "n \<le> length q'" by simp
  from Suc.IH[OF 1(1-5) this] 1(6) q show ?case
    by (simp add: run_def replicate_append_same)
qed

lemma fifo_general:
  assumes "i < length (tasks w)" "st (tasks w ! i) = Watching ps f q" "ps \<noteq> []"
    "\<not> cancel_requested (tasks w ! i)" "ws w = Some (SockRef k)" "connected (socks w k)"
    "\<forall>e \<in> set es. e = RunTask i \<or> (\<exists>b. b \<noteq> [] \<and> e = Detect i b)"
  shows "\<exists>n \<le> length (q @ reported i es).
           sent (socks (run rx c es w) k) = sent (socks w k) @ replicate n reload_msg \<and>
           st (tasks (run rx c es w) ! i) = Watching ps f (drop n (q @ reported i es))"
  using assms
proof (induction es arbitrary: w q)
  case Nil
  then have "sent (socks (run rx c [] w) k) = sent (socks w k) @ replicate 0 reload_msg \<and>
      st (tasks (run rx c [] w) ! i) = Watching ps f (drop 0 (q @ reported i []))"
    by (simp add: run_def)
  then show ?case by blast
next
  case (Cons e es)
  from Cons.prems(7)
  have rest: "\<forall>e \<in> set es. e = RunTask i \<or> (\<exists>b. b \<noteq> [] \<and> e = Detect i b)"
    and e: "e = RunTask i \<or> (\<exists>b. b \<noteq> [] \<and> e = Detect i b)"
    by simp_all
  have unroll: "run rx c (e # es) w = run rx c es (step rx c e w)" by (simp add: run_def)
  from e show ?case
  proof (elim disjE exE conjE)
    assume eq: "e = RunTask i"
    show ?thesis
    proof (cases q)
      case Nil
      with Cons.prems eq have same: "step rx c e w = w" by (simp add: watch_reload_def)
      from Cons.IH[OF Cons.prems(1-6) rest] same unroll eq show ?thesis by simp
    next
      case (Cons b q')
      let ?w1 = "step rx c e w"
      from Cons.prems(1-6) Cons eq have 1: "i < length (tasks ?w1)"
        "st (tasks ?w1 ! i) = Watching ps f q'" "ps \<noteq> []"
        "\<not> cancel_requested (tasks ?w1 ! i)" "ws ?w1 = Some (SockRef k)"
        "connected (socks ?w1 k)"
        and s: "sent (socks ?w1 k) = sent (socks w k) @ [reload_msg]"
        by (simp_all add: watch_reload_def prompt_reload_def send_json_def set_task_def Let_def)
      from Cons.IH[OF 1 rest] obtain n where n: "n \<le> length (q' @ reported i es)"
        "sent (socks (run rx c es ?w1) k) = sent (socks ?w1 k) @ replicate n reload_msg"
        "st (tasks (run rx c es ?w1) ! i) = Watching ps f (drop n (q' @ reported i es))"
        by blast
      from n s Cons eq unroll
      have "Suc n \<le> length (q @ reported i (e # es)) \<and>
        sent (socks (run rx c (e # es) w) k) = sent (socks w k) @ replicate (Suc n) reload_msg \<and>
        st (tasks (run rx c (e # es) w) ! i)
          = Watching ps f (drop (Suc n) (q @ reported i (e # es)))"
        by (simp add: replicate_append_same)
      then show ?thesis by blast
    qed
  next
    fix b
    assume b: "b \<noteq> []" and eq: "e = Detect i b"
    let ?w1 = "step rx c e w"
    from Cons.prems(1-6) b eq have 1: "i < length (tasks ?w1)"
      "st (tasks ?w1 ! i) = Watching ps f (q @ [b])" "ps \<noteq> []"
      "\<not> cancel_requested (tasks ?w1 ! i)" "ws ?w1 = Some (SockRef k)" "connected (socks ?w1 k)"
      and s: "sent (socks ?w1 k) = sent (socks w k)"
      by (simp_all add: detect_def set_task_def)
    from Cons.IH[OF 1 rest] s eq unroll show ?thesis by simp
  qed
qed

text \<open>
  While \<^verbatim>\<open>self.ws\<close> is the live connection \<open>k\<close> of the session whose task \<open>i\<close> is watching
  and not cancelled, and no other event comes between, the code does what it is meant
  to: however the watcher's reports and the task's resumptions interleave, the messages
  sent on \<open>k\<close> are the earlier ones followed by one reload for each batch consumed, and
  the batches not yet consumed wait in the order they were reported.
\<close>

lemma reload_per_batch_own_connection:
  assumes "i < length (tasks w)" and "st (tasks w ! i) = Watching ps f q" and "ps \<noteq> []"
    and "\<not> cancel_requested (tasks w ! i)"
    and "ws w = Some (SockRef k)" and "connected (socks w k)"
    and "\<forall>e \<in> set es. e = RunTask i \<or> (\<exists>b. b \<noteq> [] \<and> e = Detect i b)"
  shows "(\<exists>n \<le> length (q @ reported i es).
            sent (socks (run rx c es w) k) = sent (socks w k) @ replicate n reload_msg \<and>
            st (tasks (run rx c es w) ! i) = Watching ps f (drop n (q @ reported i es))) \<and>
         ((\<forall>b \<in> set bs. b \<noteq> []) \<and> m \<le> length (q @ bs) \<longrightarrow>
            sent (socks (run rx c (map (Detect i) bs @ replicate m (RunTask i)) w) k) =
              sent (socks w k) @ replicate m reload_msg \<and>
            st (tasks (run rx c (map (Detect i) bs @ replicate m (RunTask i)) w) ! i) =
              Watching ps f (drop m (q @ bs)))"
proof (intro conjI impI)
  show "\<exists>n \<le> length (q @ reported i es).
            sent (socks (run rx c es w) k) = sent (socks w k) @ replicate n reload_msg \<and>
            st (tasks (run rx c es w) ! i) = Watching ps f (drop n (q @ reported i es))"
    using assms by (rule fifo_general)
next
  assume h: "(\<forall>b \<in> set bs. b \<noteq> []) \<and> m \<le> length (q @ bs)"
  let ?w1 = "run rx c (map (Detect i) bs) w"
  from h have ne: "\<forall>b \<in> set bs. b \<noteq> []" and m: "m \<le> length (q @ bs)" by simp_all
  from detect_many[OF assms(1,2,3) ne, where c = c and rx = rx] assms
  have 1: "i < length (tasks ?w1)" "st (tasks ?w1 ! i) = Watching ps f (q @ bs)"
    "\<not> cancel_requested (tasks ?w1 ! i)" "ws ?w1 = Some (SockRef k)" "connected (socks ?w1 k)"
    and s: "socks ?w1 = socks w"
    by simp_all
  have split: "run rx c (map (Detect i) bs @ replicate m (RunTask i)) w
      = run rx c (replicate m (RunTask i)) ?w1"
    by (simp add: run_def)
  from watch_reload_many[OF 1 m, where c = c and rx = rx] s split
  show "sent (socks (run rx c (map (Detect i) bs @ replicate m (RunTask i)) w) k) =
              sent (socks w k) @ replicate m reload_msg"
    and "st (tasks (run rx c (map (Detect i) bs @ replicate m (RunTask i)) w) ! i) =
              Watching ps f (drop m (q @ bs))"
    by simp_all
qed

text \<open>
  C7: each batch that the watcher yields to an active session should give that session
  exactly one reload. With two clients this fails. Client 0 connects and its task starts
  watching; client 1 connects, and \<^verbatim>\<open>on_accept\<close> overwrites \<^verbatim>\<open>self.ws\<close> on the one listener
  instance. When the watcher of session 0 then yields a batch, its task sends the reload
  on connection 1; connection 0, still open and with its task watching, is sent nothing.
  When both watchers report the same change, connection 1 is sent two reloads.
\<close>

theorem second_session_takes_reloads:
  "sent (socks (run (\<lambda>_. True) (reload_endpoint [''src''] None None None)
      [Accept 0, RunTask 0, Accept 1, RunTask 1, Detect 0 [''a.py''], RunTask 0]
      (module_load ''v1'')) 0) = [ping_msg ''v1''] \<and>
   connected (socks (run (\<lambda>_. True) (reload_endpoint [''src''] None None None)
      [Accept 0, RunTask 0, Accept 1, RunTask 1, Detect 0 [''a.py''], RunTask 0]
      (module_load ''v1'')) 0) \<and>
   tasks (run (\<lambda>_. True) (reload_endpoint [''src''] None None None)
      [Accept 0, RunTask 0, Accept 1, RunTask 1, Detect 0 [''a.py''], RunTask 0]
      (module_load ''v1'')) =
     [\<lparr>st = Watching [''src''] (DefaultFilter None None) [], cancel_requested = False\<rparr>,
      \<lparr>st = Watching [''src''] (DefaultFilter None None) [], cancel_requested = False\<rparr>] \<and>
   sent (socks (run (\<lambda>_. True) (reload_endpoint [''src''] None None None)
      [Accept 0, RunTask 0, Accept 1, RunTask 1, Detect 0 [''a.py''], RunTask 0]
      (module_load ''v1'')) 1) = [ping_msg ''v1'', reload_msg] \<and>
   sent (socks (run (\<lambda>_. True) (reload_endpoint [''src''] None None None)
      [Accept 0, RunTask 0, Accept 1, RunTask 1, Detect 0 [''a.py''], Detect 1 [''a.py''],
       RunTask 0, RunTask 1]
      (module_load ''v1'')) 0) = [ping_msg ''v1''] \<and>
   sent (socks (run (\<lambda>_. True) (reload_endpoint [''src''] None None None)
      [Accept 0, RunTask 0, Accept 1, RunTask 1, Detect 0 [''a.py''], Detect 1 [''a.py''],
       RunTask 0, RunTask 1]
      (module_load ''v1'')) 1) = [ping_msg ''v1'', reload_msg, reload_msg]"
  by (simp add: evals)

section \<open>Echo\<close>

text \<open>
  C8: \<^verbatim>\<open>on_receive\<close> returns the string it was given, whatever the string and whatever
  the state, and leaves the state as it was.
\<close>

theorem on_receive_identity: "on_receive data w = (data, w)"
  by (simp add: on_receive_def)

section \<open>No watch paths\<close>

lemma idle_inv_accept: "idle_inv w \<Longrightarrow> idle_inv (step rx c (Accept k) w)"
  using ping_ne_reload[of "version_id w"]
  by (auto simp: idle_inv_def escape_fields on_accept_fields nth_append)

lemma idle_inv_disconnect: "idle_inv w \<Longrightarrow> idle_inv (step rx c Disconnect w)"
  by (auto simp: idle_inv_def escape_fields on_disconnect_begin_def Let_def cancel_fields
      cancel_tasks split: option.splits)

lemma idle_inv_resume: "idle_inv w \<Longrightarrow> idle_inv (step rx c (Resume t) w)"
  by (auto simp: idle_inv_def escape_fields on_disconnect_resume_fields split: tstate.splits)

lemma idle_inv_watch_reload:
  assumes "idle_inv w" "watch_paths c = []"
  shows "idle_inv (step rx c (RunTask i) w)"
proof (cases "i < length (tasks w)")
  case False
  with assms show ?thesis by (simp add: watch_reload_def)
next
  case True
  show ?thesis
  proof (cases "st (tasks w ! i)")
    case Scheduled
    with True assms show ?thesis
      by (auto simp: idle_inv_def watch_reload_def set_task_fields nth_list_update
          split: sum.splits)
  next
    case (Watching ps f q)
    with True assms have "q = []" by (simp add: idle_inv_def)
    with Watching True assms show ?thesis
      by (auto simp: idle_inv_def watch_reload_def set_task_fields nth_list_update)
  next
    case (Done oc)
    with True assms show ?thesis by (simp add: watch_reload_def)
  qed
qed

lemma idle_inv_detect: "idle_inv w \<Longrightarrow> idle_inv (step rx c (Detect i b) w)"
  by (auto simp: idle_inv_def detect_def split: tstate.splits)

lemma idle_inv_awatch_ends: "idle_inv w \<Longrightarrow> idle_inv (awatch_ends i oc w)"
  by (auto simp: idle_inv_def awatch_ends_def set_task_fields nth_list_update
      split: tstate.splits)

lemma idle_inv_gone: "idle_inv w \<Longrightarrow> idle_inv (step rx c (Gone k) w)"
  by (auto simp: idle_inv_def peer_gone_def)

lemma idle_inv_step: "idle_inv w \<Longrightarrow> watch_paths c = [] \<Longrightarrow> idle_inv (step rx c e w)"
proof (cases e)
  case (Accept k)
  assume "idle_inv w" with Accept show ?thesis by (simp only: idle_inv_accept)
next
  case (Receive d)
  assume "idle_inv w" with Receive show ?thesis by (simp add: on_receive_def)
next
  case Disconnect
  assume "idle_inv w" with Disconnect show ?thesis by (simp only: idle_inv_disconnect)
next
  case (Resume t)
  assume "idle_inv w" with Resume show ?thesis by (simp only: idle_inv_resume)
next
  case (RunTask i)
  assume "idle_inv w" "watch_paths c = []"
  with RunTask show ?thesis by (simp only: idle_inv_watch_reload)
next
  case (Detect i b)
  assume "idle_inv w" with Detect show ?thesis by (simp only: idle_inv_detect)
next
  case (AwatchStop i)
  assume "idle_inv w" with AwatchStop show ?thesis by (simp add: idle_inv_awatch_ends)
next
  case (AwatchRaise i)
  assume "idle_inv w" with AwatchRaise show ?thesis by (simp add: idle_inv_awatch_ends)
next
  case (Gone k)
  assume "idle_inv w" with Gone show ?thesis by (simp only: idle_inv_gone)
qed

lemma idle_inv_run: "idle_inv w \<Longrightarrow> watch_paths c = [] \<Longrightarrow> idle_inv (run rx c es w)"
  by (induction es arbitrary: w) (simp_all add: run_def idle_inv_step)

text \<open>
  C9: a plugin built with no watch paths and no filter is built as any other; accepting a
  connection whose peer is there raises nothing, so nothing reaches the host; and under
  every schedule no reload message is ever sent on any connection.
\<close>

theorem empty_watch_paths_inert:
  "p_watch_paths (BrowserReloadPlugin [] idirs ipats None) = [] \<and>
   escaped (run rx (reload_endpoint [] idirs ipats None) [Accept k] (module_load v)) = [] \<and>
   (connected (socks w k) \<longrightarrow> fst (on_accept k w) = None) \<and>
   reload_msg \<notin> set (sent (socks (run rx (reload_endpoint [] idirs ipats None) es
      (module_load v)) k))"
proof -
  have "idle_inv (module_load v)" by (simp add: idle_inv_def module_load_def)
  then have "idle_inv (run rx (reload_endpoint [] idirs ipats None) es (module_load v))"
    by (rule idle_inv_run) (simp add: reload_endpoint_def)
  then have "reload_msg \<notin> set (sent (socks (run rx (reload_endpoint [] idirs ipats None) es
      (module_load v)) k))"
    by (simp add: idle_inv_def)
  moreover
  have "escaped (run rx (reload_endpoint [] idirs ipats None) [Accept k] (module_load v)) = []"
    by (simp add: run_def escape_fields on_accept_fields module_load_def)
  ultimately show ?thesis
    by (simp add: BrowserReloadPlugin_def on_accept_fields)
qed

theorem empty_watch_paths_inert_witness:
  "connected (socks (module_load ''v1'') 0) \<and> fst (on_accept 0 (module_load ''v1'')) = None \<and>
   reload_msg \<notin> set (sent (socks (run (\<lambda>_. True) (reload_endpoint [] None None None)
      [Accept 0, RunTask 0, Detect 0 [''a.py''], RunTask 0] (module_load ''v1'')) 0))"
  using empty_watch_paths_inert[where rx = "\<lambda>_. True" and idirs = None and ipats = None and k = 0 and v = "''v1''"
      and w = "module_load ''v1''" and es = "[Accept 0, RunTask 0, Detect 0 [''a.py''], RunTask 0]"]
  by (simp add: evals)

section \<open>The guard of prompt_reload\<close>

text \<open>
  C10: \<^verbatim>\<open>prompt_reload\<close> raises when \<^verbatim>\<open>self.ws\<close> was never assigned and does nothing when
  it is falsy; it changes what was sent on a connection only if \<^verbatim>\<open>self.ws\<close> refers to
  that connection and the peer is there, and then by the one reload message. A watch
  task whose callback runs while \<^verbatim>\<open>self.ws\<close> is unassigned ends with the attribute error
  and sends nothing.
\<close>

theorem prompt_reload_guard:
  "(ws w = None \<longrightarrow> prompt_reload w = (Some AttributeError, w)) \<and>
   (ws w = Some PyNone \<longrightarrow> prompt_reload w = (None, w)) \<and>
   (\<forall>k. sent (socks (snd (prompt_reload w)) k) \<noteq> sent (socks w k) \<longrightarrow>
        ws w = Some (SockRef k) \<and> connected (socks w k) \<and>
        sent (socks (snd (prompt_reload w)) k) = sent (socks w k) @ [reload_msg]) \<and>
   (ws w = None \<and> i < length (tasks w) \<and> st (tasks w ! i) = Watching ps f (b # q) \<and>
    \<not> cancel_requested (tasks w ! i) \<longrightarrow>
        socks (watch_reload rx c i w) = socks w \<and>
        st (tasks (watch_reload rx c i w) ! i) = Done (Failed AttributeError))"
  by (auto simp: prompt_reload_def send_json_def watch_reload_def set_task_def Let_def
      split: option.splits pyref.splits if_splits)

theorem prompt_reload_guard_witness:
  "ws (module_load ''v1'') = None \<and>
   prompt_reload (module_load ''v1'') = (Some AttributeError, module_load ''v1'') \<and>
   ws ((module_load ''v1'')\<lparr>ws := Some PyNone\<rparr>) = Some PyNone \<and>
   prompt_reload ((module_load ''v1'')\<lparr>ws := Some PyNone\<rparr>)
     = (None, (module_load ''v1'')\<lparr>ws := Some PyNone\<rparr>) \<and>
   sent (socks (snd (prompt_reload (snd (on_accept 0 (module_load ''v1''))))) 0) \<noteq>
     sent (socks (snd (on_accept 0 (module_load ''v1''))) 0) \<and>
   ws (snd (on_accept 0 (module_load ''v1''))) = Some (SockRef 0) \<and>
   socks (watch_reload (\<lambda>_. True) (reload_endpoint [''src''] None None None) 0
     ((module_load ''v1'')\<lparr>tasks :=
        [\<lparr>st = Watching [''src''] (DefaultFilter None None) [[''a.py'']],
          cancel_requested = False\<rparr>]\<rparr>)) = socks (module_load ''v1'')"
  using prompt_reload_guard[where w = "module_load ''v1''"]
    prompt_reload_guard[where w = "(module_load ''v1'')\<lparr>ws := Some PyNone\<rparr>"]
    prompt_reload_guard[where w = "snd (on_accept 0 (module_load ''v1''))"]
    prompt_reload_guard[where w = "(module_load ''v1'')\<lparr>tasks :=
        [\<lparr>st = Watching [''src''] (DefaultFilter None None) [[''a.py'']],
          cancel_requested = False\<rparr>]\<rparr>"
      and i = 0 and ps = "[''src'']" and f = "DefaultFilter None None"
      and b = "[''a.py'']" and q = "[]" and rx = "\<lambda>_. True" and c = "reload_endpoint [''src''] None None None"]
  by (simp add: evals)

end
